theory Spec2Isabelle
  imports Complex_Main
begin

section \<open>Data model\<close>

text \<open>
  The two notebooks are thin Python code around a retrieval library. What they compute
  themselves is modelled here: the conversion of loaded JSONL records into library
  documents (\<^verbatim>\<open>step_02_embedding/embedding.ipynb\<close>), the construction of the ensemble
  retriever with its default weights, and the interactive question cell
  (\<^verbatim>\<open>step_03_RAG/RAG.ipynb\<close>).

  Exceptions are values: a function that can raise returns \<open>py_error + 'a\<close>, with
  \<open>Inl\<close> for the exception. \<open>ValidationError\<close> is what the library's validated
  \<^verbatim>\<open>Document\<close> class raises for a field of the wrong type; \<open>LibraryError\<close> stands for
  any other exception raised inside a library call whose code is not part of the notebooks.
\<close>

datatype py_error = KeyError string | ZeroDivisionError | ValidationError | LibraryError string

text \<open>
  The values \<^verbatim>\<open>json.loads\<close> produces (\<^verbatim>\<open>Dict[str, Any]\<close> in the annotations): the
  fields of a loaded record are any of these. A Python dict that is only read by key is a
  map \<open>string \<rightharpoonup> 'v\<close>.
\<close>

datatype py_value =
    PyNone
  | PyBool bool
  | PyInt int
  | PyStr string
  | PyList "py_value list"
  | PyDict "(string \<times> py_value) list"

text \<open>
  \<^verbatim>\<open>Document\<close> is the library's document class (\<^verbatim>\<open>langchain_core.documents\<close>), a
  validated model with the typed fields \<^verbatim>\<open>page_content: str\<close> and \<^verbatim>\<open>metadata: dict\<close>.
  The record holds a constructed document; \<open>Document_init\<close> is the constructor call
  \<^verbatim>\<open>Document(page_content=..., metadata=...)\<close>: a string and a dict are stored as given,
  any other argument raises \<^verbatim>\<open>ValidationError\<close>.
\<close>

record Document =
  page_content :: string
  metadata :: "(string \<times> py_value) list"

fun Document_init :: "py_value \<Rightarrow> py_value \<Rightarrow> py_error + Document" where
  "Document_init (PyStr t) (PyDict kvs) = Inr \<lparr>page_content = t, metadata = kvs\<rparr>"
| "Document_init _ _ = Inl ValidationError"

text \<open>
  \<^verbatim>\<open>EnsembleRetriever(retrievers=..., weights=...)\<close>: the object the notebook builds. Only
  its two constructor arguments are modelled; what the library does with them at query
  time is not code of the notebooks. The retrievers are of any type \<open>'r\<close>. A weight is a
  Python float; the only float computed at construction is \<^verbatim>\<open>1/len(retrievers)\<close>,
  taken here as the exact quotient (for two retrievers it is 0.5, which a float holds
  exactly).

  \<open>EnsembleRetriever_init\<close> is the constructor call. The library treats an empty weight
  list like a missing one and fills in equal weights itself, dividing by the number of
  retrievers (\<^verbatim>\<open>ZeroDivisionError\<close> when there is none); a non-empty list is stored as
  given.
\<close>

record 'r EnsembleRetriever =
  er_retrievers :: "'r list"
  er_weights :: "real list"

definition EnsembleRetriever_init ::
  "'r list \<Rightarrow> real list \<Rightarrow> py_error + 'r EnsembleRetriever" where
  "EnsembleRetriever_init retrievers weights =
     (if weights = [] then
        (if length retrievers = 0 then Inl ZeroDivisionError
         else Inr \<lparr>er_retrievers = retrievers,
                   er_weights =
                     replicate (length retrievers) (1 / real (length retrievers))\<rparr>)
      else Inr \<lparr>er_retrievers = retrievers, er_weights = weights\<rparr>)"

text \<open>
  The interactive cell acts on the outside world in two ways: it invokes the chain and it
  prints. The state records both, in order: the queries the chain was invoked with and the
  arguments of the \<^verbatim>\<open>print\<close> calls.
\<close>

record cell_state =
  invocations :: "string list"
  stdout :: "string list"

section \<open>embedding.ipynb: convert_to_langchain_documents\<close>

text \<open>
  \<^verbatim>\<open>
  def convert_to_langchain_documents(documents):
      langchain_docs = []
      for doc in documents:
          langchain_docs.append(
              Document(page_content=doc["content"], metadata=doc["metadata"]))
      return langchain_docs
  \<close>
  The loop is \<open>convert_loop\<close>, with the list built so far as its first argument.
  \<^verbatim>\<open>doc["content"]\<close> is evaluated before \<^verbatim>\<open>doc["metadata"]\<close>; a missing key raises
  \<^verbatim>\<open>KeyError\<close> and ends the function. With both values read, the constructor is
  called; its \<^verbatim>\<open>ValidationError\<close> ends the function as well.
\<close>

fun convert_loop ::
  "Document list \<Rightarrow> (string \<rightharpoonup> py_value) list \<Rightarrow> py_error + Document list" where
  "convert_loop langchain_docs [] = Inr langchain_docs"
| "convert_loop langchain_docs (doc # documents) =
     (case doc ''content'' of
        None \<Rightarrow> Inl (KeyError ''content'')
      | Some c \<Rightarrow>
          (case doc ''metadata'' of
             None \<Rightarrow> Inl (KeyError ''metadata'')
           | Some m \<Rightarrow>
               (case Document_init c m of
                  Inl e \<Rightarrow> Inl e
                | Inr d \<Rightarrow> convert_loop (langchain_docs @ [d]) documents)))"

definition convert_to_langchain_documents ::
  "(string \<rightharpoonup> py_value) list \<Rightarrow> py_error + Document list" where
  "convert_to_langchain_documents documents = convert_loop [] documents"

section \<open>RAG.ipynb: create_ensemble_retriever\<close>

text \<open>
  \<^verbatim>\<open>
  def create_ensemble_retriever(retrievers, weights=None):
      if weights is None:
          weights = [1/len(retrievers)] * len(retrievers)
      return EnsembleRetriever(retrievers=retrievers, weights=weights)
  \<close>
  \<^verbatim>\<open>weights=None\<close> is \<open>None\<close>, a supplied list is \<open>Some\<close>. With no retrievers and no
  weights the division raises \<^verbatim>\<open>ZeroDivisionError\<close> before the constructor is reached.
\<close>

definition create_ensemble_retriever ::
  "'r list \<Rightarrow> real list option \<Rightarrow> py_error + 'r EnsembleRetriever" where
  "create_ensemble_retriever retrievers weights =
     (case weights of
        None \<Rightarrow>
          (if length retrievers = 0 then Inl ZeroDivisionError
           else EnsembleRetriever_init retrievers
                  (replicate (length retrievers) (1 / real (length retrievers))))
      | Some ws \<Rightarrow> EnsembleRetriever_init retrievers ws)"

section \<open>RAG.ipynb: the interactive cell\<close>

text \<open>
  \<^verbatim>\<open>
  user_query = input(...)
  if user_query.lower() != 'q':
      response = rag_chain.invoke({"input": user_query})
      print("\n<label>:")
      print(response["answer"])
  \<close>
  \<open>lower\<close> is \<^verbatim>\<open>str.lower\<close> on the ASCII letters; every other character is left as it
  is. The cell uses the lowered string only to compare it with \<^verbatim>\<open>'q'\<close>, and the chain
  receives the string as typed.
\<close>

definition lower_char :: "char \<Rightarrow> char" where
  "lower_char c =
     (if 65 \<le> (of_char c :: nat) \<and> (of_char c :: nat) \<le> 90
      then char_of ((of_char c :: nat) + 32) else c)"

definition lower :: "string \<Rightarrow> string" where
  "lower s = map lower_char s"

text \<open>The label the cell prints before the answer: a newline, two Hangul syllables and a
  colon, as the bytes of its UTF-8 encoding.\<close>

definition answer_label :: string where
  "answer_label =
     [CHR 0x0A, CHR 0xEC, CHR 0x9D, CHR 0x91, CHR 0xEB, CHR 0x8B, CHR 0xB5, CHR 0x3A]"

text \<open>
  The chain is the object \<^verbatim>\<open>create_rag_chain\<close> returns, built entirely by library calls:
  here any function from the query to an exception or to the response dict. The string
  read by \<^verbatim>\<open>input\<close> is the argument \<open>user_query\<close>. The result is the exception that
  leaves the cell, if any, and the state after it; an invocation is recorded at the call,
  before its outcome is known.
\<close>

definition interactive_cell ::
  "(string \<Rightarrow> py_error + (string \<rightharpoonup> string)) \<Rightarrow> string \<Rightarrow> cell_state
     \<Rightarrow> py_error option \<times> cell_state" where
  "interactive_cell rag_chain user_query s =
     (if lower user_query \<noteq> ''q'' then
        (let s1 = s\<lparr>invocations := invocations s @ [user_query]\<rparr> in
         case rag_chain user_query of
           Inl e \<Rightarrow> (Some e, s1)
         | Inr response \<Rightarrow>
             (let s2 = s1\<lparr>stdout := stdout s1 @ [answer_label]\<rparr> in
              case response ''answer'' of
                None \<Rightarrow> (Some (KeyError ''answer''), s2)
              | Some answer \<Rightarrow> (None, s2\<lparr>stdout := stdout s2 @ [answer]\<rparr>)))
      else (None, s))"

section \<open>Document conversion preserves structure\<close>

text \<open>With a string \<^verbatim>\<open>content\<close> and a dict \<^verbatim>\<open>metadata\<close> in every record, the loop
  appends one document per record, in order, to whatever it has built so far.\<close>

lemma convert_loop_append:
  "\<forall>d \<in> set documents.
      (\<exists>c. d ''content'' = Some (PyStr c)) \<and> (\<exists>m. d ''metadata'' = Some (PyDict m)) \<Longrightarrow>
   \<exists>out. convert_loop acc documents = Inr (acc @ out)
      \<and> length out = length documents
      \<and> (\<forall>i < length documents.
            (documents ! i) ''content'' = Some (PyStr (page_content (out ! i)))
          \<and> (documents ! i) ''metadata'' = Some (PyDict (metadata (out ! i))))"
proof (induction documents arbitrary: acc)
  case Nil
  then show ?case by simp
next
  case (Cons d documents)
  from Cons.prems obtain c m
    where c: "d ''content'' = Some (PyStr c)" and m: "d ''metadata'' = Some (PyDict m)"
    by auto
  let ?doc = "\<lparr>page_content = c, metadata = m\<rparr>"
  from Cons.prems have rest: "\<forall>d \<in> set documents.
      (\<exists>c. d ''content'' = Some (PyStr c)) \<and> (\<exists>m. d ''metadata'' = Some (PyDict m))"
    by simp
  from Cons.IH [OF rest, of "acc @ [?doc]"] obtain out
    where run: "convert_loop (acc @ [?doc]) documents = Inr ((acc @ [?doc]) @ out)"
      and len: "length out = length documents"
      and fields: "\<forall>i < length documents.
            (documents ! i) ''content'' = Some (PyStr (page_content (out ! i)))
          \<and> (documents ! i) ''metadata'' = Some (PyDict (metadata (out ! i)))"
    by blast
  have "convert_loop acc (d # documents) = Inr (acc @ (?doc # out))"
    using c m run by simp
  moreover have "length (?doc # out) = length (d # documents)"
    using len by simp
  moreover have "((d # documents) ! i) ''content''
        = Some (PyStr (page_content ((?doc # out) ! i)))
      \<and> ((d # documents) ! i) ''metadata''
        = Some (PyDict (metadata ((?doc # out) ! i)))"
    if "i < length (d # documents)" for i
    using that c m fields by (cases i) auto
  ultimately show ?case by blast
qed

text \<open>A record without \<^verbatim>\<open>content\<close> ends the conversion with \<^verbatim>\<open>KeyError\<close>, whatever
  was converted before it.\<close>

lemma convert_loop_missing_content:
  "d ''content'' = None \<Longrightarrow> convert_loop acc (d # documents) = Inl (KeyError ''content'')"
  by simp

text \<open>
  Carrying the two fields is not enough for the conversion to return: the record
  \<^verbatim>\<open>{"content": null, "metadata": {}}\<close> has both, and the document constructor rejects
  its \<^verbatim>\<open>content\<close>, so the function raises \<^verbatim>\<open>ValidationError\<close> and returns no list.
\<close>

theorem convert_to_langchain_documents_null_content:
  "[''content'' \<mapsto> PyNone, ''metadata'' \<mapsto> PyDict []] ''content'' = Some PyNone
   \<and> [''content'' \<mapsto> PyNone, ''metadata'' \<mapsto> PyDict []] ''metadata'' = Some (PyDict [])
   \<and> convert_to_langchain_documents [[''content'' \<mapsto> PyNone, ''metadata'' \<mapsto> PyDict []]]
       = Inl ValidationError"
  by (simp add: convert_to_langchain_documents_def)

text \<open>
  Claim C10, amended. \<open>convert_to_langchain_documents\<close> is a structure-preserving map
  on well-typed records: for every list of records that each carry a string \<^verbatim>\<open>content\<close>
  and a dict \<^verbatim>\<open>metadata\<close>, it returns (without raising) a list of the same length, and
  the i-th document has the i-th record's \<^verbatim>\<open>content\<close> as its \<open>page_content\<close> and the
  i-th record's \<^verbatim>\<open>metadata\<close> as its \<open>metadata\<close>.
\<close>

theorem convert_to_langchain_documents_structure:
  assumes "\<forall>d \<in> set documents.
      (\<exists>c. d ''content'' = Some (PyStr c)) \<and> (\<exists>m. d ''metadata'' = Some (PyDict m))"
  shows "\<exists>out. convert_to_langchain_documents documents = Inr out
           \<and> length out = length documents
           \<and> (\<forall>i < length documents.
                 (documents ! i) ''content'' = Some (PyStr (page_content (out ! i)))
               \<and> (documents ! i) ''metadata'' = Some (PyDict (metadata (out ! i))))"
  using convert_loop_append [OF assms, of "[]"]
  by (simp add: convert_to_langchain_documents_def)

text \<open>The theorem at the first record of the notebook's data set followed by a second
  record: two documents come out, in the records' order.\<close>

theorem convert_to_langchain_documents_structure_witness:
  "\<exists>out. convert_to_langchain_documents
            [[''content'' \<mapsto> PyStr ''# Community Projects'',
              ''metadata'' \<mapsto> PyDict [(''path'', PyStr ''community.md'')]],
             [''content'' \<mapsto> PyStr ''# Installing Roo Code'',
              ''metadata'' \<mapsto> PyDict [(''name'', PyStr ''installing.md'')]]] = Inr out
         \<and> length out = 2
         \<and> page_content (out ! 0) = ''# Community Projects''
         \<and> metadata (out ! 1) = [(''name'', PyStr ''installing.md'')]"
proof -
  let ?d0 = "[''content'' \<mapsto> PyStr ''# Community Projects'',
              ''metadata'' \<mapsto> PyDict [(''path'', PyStr ''community.md'')]]"
  let ?d1 = "[''content'' \<mapsto> PyStr ''# Installing Roo Code'',
              ''metadata'' \<mapsto> PyDict [(''name'', PyStr ''installing.md'')]]"
  have typed: "\<forall>d \<in> set [?d0, ?d1].
      (\<exists>c. d ''content'' = Some (PyStr c)) \<and> (\<exists>m. d ''metadata'' = Some (PyDict m))"
    by simp
  from convert_to_langchain_documents_structure [OF typed]
  obtain out where run: "convert_to_langchain_documents [?d0, ?d1] = Inr out"
    and len: "length out = length [?d0, ?d1]"
    and fields: "\<forall>i < length [?d0, ?d1].
                   ([?d0, ?d1] ! i) ''content'' = Some (PyStr (page_content (out ! i)))
                 \<and> ([?d0, ?d1] ! i) ''metadata'' = Some (PyDict (metadata (out ! i)))"
    by blast
  from fields [rule_format, of 0] have first:
    "page_content (out ! 0) = ''# Community Projects''"
    by simp
  from fields [rule_format, of 1] have second:
    "metadata (out ! 1) = [(''name'', PyStr ''installing.md'')]"
    by simp
  from run len first second show ?thesis by simp
qed

section \<open>Weights of the ensemble retriever\<close>

text \<open>Without weights and without retrievers, \<^verbatim>\<open>1/len(retrievers)\<close> divides by zero.\<close>

lemma create_ensemble_retriever_no_retrievers:
  "create_ensemble_retriever [] None = Inl ZeroDivisionError"
  by (simp add: create_ensemble_retriever_def)

text \<open>The function itself does not look at the supplied weights: a non-empty list is
  stored as it is, whatever its signs, its sum or its length.\<close>

lemma create_ensemble_retriever_supplied:
  "ws \<noteq> [] \<Longrightarrow>
   create_ensemble_retriever retrievers (Some ws) =
     Inr \<lparr>er_retrievers = retrievers, er_weights = ws\<rparr>"
  by (simp add: create_ensemble_retriever_def EnsembleRetriever_init_def)

text \<open>An empty list of weights is not \<^verbatim>\<open>None\<close>, so it reaches the constructor, which
  takes it for unset: the result is the same as with no weights.\<close>

lemma create_ensemble_retriever_empty_weights:
  "create_ensemble_retriever retrievers (Some []) = create_ensemble_retriever retrievers None"
  by (simp add: create_ensemble_retriever_def EnsembleRetriever_init_def)

text \<open>
  Claim C6. When the weights are not supplied (\<^verbatim>\<open>None\<close>), the two retrieval sources
  get equal weights \<open>(0.5, 0.5)\<close>; supplied weights (a non-empty list), each
  non-negative, are used as they are, whether or not they sum to 1.
\<close>

theorem create_ensemble_retriever_weights:
  "(length retrievers = 2 \<longrightarrow>
      create_ensemble_retriever retrievers None =
        Inr \<lparr>er_retrievers = retrievers, er_weights = [1 / 2, 1 / 2]\<rparr>)
   \<and> (ws \<noteq> [] \<and> (\<forall>w \<in> set ws. 0 \<le> w) \<longrightarrow>
      create_ensemble_retriever retrievers (Some ws) =
        Inr \<lparr>er_retrievers = retrievers, er_weights = ws\<rparr>)"
proof (intro conjI impI)
  assume two: "length retrievers = 2"
  then have "retrievers \<noteq> []" by auto
  moreover have "replicate (length retrievers) (1 / real (length retrievers)) = [1 / 2, 1 / 2]"
    using two by (simp add: numeral_2_eq_2)
  ultimately show "create_ensemble_retriever retrievers None =
      Inr \<lparr>er_retrievers = retrievers, er_weights = [1 / 2, 1 / 2]\<rparr>"
    by (simp add: create_ensemble_retriever_def EnsembleRetriever_init_def)
next
  assume "ws \<noteq> [] \<and> (\<forall>w \<in> set ws. 0 \<le> w)"
  then show "create_ensemble_retriever retrievers (Some ws) =
      Inr \<lparr>er_retrievers = retrievers, er_weights = ws\<rparr>"
    by (simp add: create_ensemble_retriever_def EnsembleRetriever_init_def)
qed

text \<open>The theorem at the notebook's two retrievers: the default is \<open>(0.5, 0.5)\<close>, and the
  supplied pair \<open>(2, 0.5)\<close>, which sums to 2.5, is kept.\<close>

theorem create_ensemble_retriever_weights_witness:
  "create_ensemble_retriever [''similarity_retriever'', ''bm25_retriever''] None =
     Inr \<lparr>er_retrievers = [''similarity_retriever'', ''bm25_retriever''],
          er_weights = [1 / 2, 1 / 2]\<rparr>
   \<and> create_ensemble_retriever [''similarity_retriever'', ''bm25_retriever'']
         (Some [2, 1 / 2]) =
     Inr \<lparr>er_retrievers = [''similarity_retriever'', ''bm25_retriever''],
          er_weights = [2, 1 / 2]\<rparr>
   \<and> sum_list [2, 1 / 2 :: real] \<noteq> 1"
  using create_ensemble_retriever_weights
    [of "[''similarity_retriever'', ''bm25_retriever'']" "[2, 1 / 2]"]
  by simp

section \<open>The interactive cell\<close>

text \<open>A character lowers to \<open>q\<close> exactly when it is \<open>q\<close> or \<open>Q\<close>.\<close>

lemma char_eq_code: "(a :: char) = b \<longleftrightarrow> (of_char a :: nat) = of_char b"
  by simp

lemma lower_char_q: "lower_char c = CHR ''q'' \<longleftrightarrow> c = CHR ''q'' \<or> c = CHR ''Q''"
proof (cases "65 \<le> (of_char c :: nat) \<and> (of_char c :: nat) \<le> 90")
  case True
  have "char_of ((of_char c :: nat) + 32) = CHR ''q''
      \<longleftrightarrow> (of_char (char_of ((of_char c :: nat) + 32) :: char) :: nat) = of_char (CHR ''q'')"
    by (rule char_eq_code)
  also have "\<dots> \<longleftrightarrow> ((of_char c :: nat) + 32) mod 256 = 113"
    by (simp only: of_char_of) simp
  also have "\<dots> \<longleftrightarrow> (of_char c :: nat) = 81" using True by auto
  also have "\<dots> \<longleftrightarrow> (of_char c :: nat) = of_char (CHR ''Q'')" by simp
  also have "\<dots> \<longleftrightarrow> c = CHR ''Q''" by (rule char_eq_code [symmetric])
  finally have "char_of ((of_char c :: nat) + 32) = CHR ''q'' \<longleftrightarrow> c = CHR ''Q''" .
  moreover have "lower_char c = char_of ((of_char c :: nat) + 32)"
    using True by (simp only: lower_char_def if_True simp_thms)
  ultimately have "lower_char c = CHR ''q'' \<longleftrightarrow> c = CHR ''Q''" by simp
  moreover have "c \<noteq> CHR ''q''" using True by auto
  ultimately show ?thesis by simp
next
  case False
  then have "lower_char c = c" unfolding lower_char_def by (rule if_not_P)
  moreover have "c \<noteq> CHR ''Q''" using False by auto
  ultimately show ?thesis by simp
qed

lemma lower_q: "lower s = ''q'' \<longleftrightarrow> s = ''q'' \<or> s = ''Q''"
  by (cases s) (auto simp: lower_def lower_char_q)

text \<open>What the cell does with an input that is not the quit letter, by the outcome of the
  chain: an exception of the chain leaves the cell with nothing printed; an answer is
  printed after the label.\<close>

lemma interactive_cell_chain_raises:
  "lower user_query \<noteq> ''q'' \<Longrightarrow> rag_chain user_query = Inl e \<Longrightarrow>
   interactive_cell rag_chain user_query s =
     (Some e, s\<lparr>invocations := invocations s @ [user_query]\<rparr>)"
  by (simp add: interactive_cell_def)

lemma interactive_cell_answer:
  "lower user_query \<noteq> ''q'' \<Longrightarrow> rag_chain user_query = Inr response \<Longrightarrow>
   response ''answer'' = Some answer \<Longrightarrow>
   interactive_cell rag_chain user_query s =
     (None, s\<lparr>invocations := invocations s @ [user_query],
              stdout := stdout s @ [answer_label, answer]\<rparr>)"
  by (simp add: interactive_cell_def)

text \<open>
  Claim C9. In the interactive cell, the input lowercased equals \<open>q\<close> exactly for the
  inputs \<open>q\<close> and \<open>Q\<close>; for these the chain is not invoked and nothing is printed (no
  exception either: the state is unchanged, whatever the chain is). For every other input
  the chain is invoked exactly once, with the input string itself as the query: one
  invocation with that string is recorded, and what leaves the cell is decided by the
  chain's result on that very string: its exception is the cell's exception, its answer
  is what is printed after the label.
\<close>

theorem interactive_cell_quit_or_invoke_once:
  "(lower user_query = ''q'' \<longleftrightarrow> user_query = ''q'' \<or> user_query = ''Q'')
   \<and> (lower user_query = ''q'' \<longrightarrow>
        interactive_cell rag_chain user_query s = (None, s))
   \<and> (lower user_query \<noteq> ''q'' \<longrightarrow>
        invocations (snd (interactive_cell rag_chain user_query s)) =
          invocations s @ [user_query])
   \<and> (lower user_query \<noteq> ''q'' \<longrightarrow>
        interactive_cell rag_chain user_query s =
          (case rag_chain user_query of
             Inl e \<Rightarrow> (Some e, s\<lparr>invocations := invocations s @ [user_query]\<rparr>)
           | Inr response \<Rightarrow>
               (case response ''answer'' of
                  None \<Rightarrow>
                    (Some (KeyError ''answer''),
                     s\<lparr>invocations := invocations s @ [user_query],
                       stdout := stdout s @ [answer_label]\<rparr>)
                | Some answer \<Rightarrow>
                    (None,
                     s\<lparr>invocations := invocations s @ [user_query],
                       stdout := stdout s @ [answer_label, answer]\<rparr>))))"
proof (intro conjI impI)
  show "lower user_query = ''q'' \<longleftrightarrow> user_query = ''q'' \<or> user_query = ''Q''"
    by (rule lower_q)
next
  assume "lower user_query = ''q''"
  then show "interactive_cell rag_chain user_query s = (None, s)"
    by (simp add: interactive_cell_def)
next
  assume "lower user_query \<noteq> ''q''"
  then show "invocations (snd (interactive_cell rag_chain user_query s)) =
      invocations s @ [user_query]"
    by (simp add: interactive_cell_def Let_def split: sum.splits option.splits)
next
  assume "lower user_query \<noteq> ''q''"
  then show "interactive_cell rag_chain user_query s =
      (case rag_chain user_query of
         Inl e \<Rightarrow> (Some e, s\<lparr>invocations := invocations s @ [user_query]\<rparr>)
       | Inr response \<Rightarrow>
           (case response ''answer'' of
              None \<Rightarrow>
                (Some (KeyError ''answer''),
                 s\<lparr>invocations := invocations s @ [user_query],
                   stdout := stdout s @ [answer_label]\<rparr>)
            | Some answer \<Rightarrow>
                (None,
                 s\<lparr>invocations := invocations s @ [user_query],
                   stdout := stdout s @ [answer_label, answer]\<rparr>)))"
    by (simp add: interactive_cell_def Let_def split: sum.splits option.splits)
qed

text \<open>The theorem at the input \<open>Q\<close> and at a question, from a state with an earlier
  invocation, on a chain that answers each query with the query in brackets: the printed
  answer shows which string the chain received.\<close>

theorem interactive_cell_quit_or_invoke_once_witness:
  "interactive_cell (\<lambda>q. Inr [''answer'' \<mapsto> ''['' @ q @ '']'']) ''Q''
       \<lparr>invocations = [''earlier''], stdout = []\<rparr> =
     (None, \<lparr>invocations = [''earlier''], stdout = []\<rparr>)
   \<and> interactive_cell (\<lambda>q. Inr [''answer'' \<mapsto> ''['' @ q @ '']''])
         ''What is Roo Code?'' \<lparr>invocations = [''earlier''], stdout = []\<rparr> =
     (None, \<lparr>invocations = [''earlier'', ''What is Roo Code?''],
             stdout = [answer_label, ''[What is Roo Code?]'']\<rparr>)"
  using interactive_cell_quit_or_invoke_once
      [of "''Q''" "\<lambda>q. Inr [''answer'' \<mapsto> ''['' @ q @ '']'']"
          "\<lparr>invocations = [''earlier''], stdout = []\<rparr>"]
    interactive_cell_quit_or_invoke_once
      [of "''What is Roo Code?''" "\<lambda>q. Inr [''answer'' \<mapsto> ''['' @ q @ '']'']"
          "\<lparr>invocations = [''earlier''], stdout = []\<rparr>"]
  by simp

end
